theory Spec2Isabelle
  imports Main
begin

section \<open>JavaScript values and objects\<close>

text \<open>
  The values that live in \<^verbatim>\<open>chrome.storage.local\<close> and in the objects of
  \<^verbatim>\<open>background.js\<close>. Numbers are the integers of the data model (percent levels,
  window and tab ids). \<open>JUndefined\<close> is what reading a missing property gives.
\<close>

datatype jsval = JUndefined | JNull | JBool bool | JNum int | JStr string

text \<open>A plain object: own properties by name. Reading a missing property gives \<^verbatim>\<open>undefined\<close>.\<close>

type_synonym jsobject = "string \<rightharpoonup> jsval"

definition get_prop :: "jsobject \<Rightarrow> string \<Rightarrow> jsval" where
  "get_prop obj k = (case obj k of None \<Rightarrow> JUndefined | Some v \<Rightarrow> v)"

text \<open>The truthiness test of \<^verbatim>\<open>if (v)\<close> and of \<^verbatim>\<open>!v\<close>.\<close>

fun truthy :: "jsval \<Rightarrow> bool" where
  "truthy JUndefined = False"
| "truthy JNull = False"
| "truthy (JBool b) = b"
| "truthy (JNum n) = (n \<noteq> 0)"
| "truthy (JStr s) = (s \<noteq> [])"

text \<open>\<^verbatim>\<open>a === b\<close> on these primitive values: same type and same value.\<close>

definition strict_eq :: "jsval \<Rightarrow> jsval \<Rightarrow> bool" where
  "strict_eq a b = (a = b)"

text \<open>\<^verbatim>\<open>s.includes(sub)\<close> and the prefix test used for URL schemes.\<close>

definition starts_with :: "string \<Rightarrow> string \<Rightarrow> bool" where
  "starts_with s p = (take (length p) s = p)"

fun includes_str :: "string \<Rightarrow> string \<Rightarrow> bool" where
  "includes_str [] sub = (sub = [])"
| "includes_str (c # cs) sub = (starts_with (c # cs) sub \<or> includes_str cs sub)"

section \<open>The host platform and the observable world\<close>

text \<open>
  A tab and a window as the host reports them. The source's \<^verbatim>\<open>tab.id\<close> and
  \<^verbatim>\<open>window.id\<close> are the fields \<open>tab_id\<close> and \<open>window_id\<close>; a window's id is optional
  in the host's type, which is why the source tests \<^verbatim>\<open>lastFocused?.id\<close>.
\<close>

record tab =
  tab_id :: int
  windowId :: int
  url :: string

record window =
  window_id :: "int option"

text \<open>The payload of the \<^verbatim>\<open>applyStyle\<close> message (lines 50-55).\<close>

record message =
  action :: string
  enabled :: bool
  level :: jsval
  brightness :: jsval
  saturation :: jsval

text \<open>
  What the host answers to each API call during one handler run: the open tabs, the
  last-focused normal window (or the error of the rejected promise), whether a storage
  read, a storage write or a tab query is rejected (with the error's message), and for
  each tab id whether the promise of \<^verbatim>\<open>chrome.tabs.sendMessage\<close> is rejected.
\<close>

record host =
  open_tabs :: "tab list"
  last_focused :: "string + window option"
  storage_get_error :: "string option"
  storage_set_error :: "string option"
  tabs_query_error :: "string option"
  send_error :: "int \<Rightarrow> string option"

text \<open>
  What a handler can change or emit: the persistent store, the messages handed to
  \<^verbatim>\<open>chrome.tabs.sendMessage\<close> in order (\<open>outbox\<close>), those of them that reached a
  receiver (\<open>delivered\<close>), and the lines written with \<^verbatim>\<open>console.error\<close>.
\<close>

record world =
  storage :: jsobject
  outbox :: "(int \<times> message) list"
  delivered :: "(int \<times> message) list"
  console :: "(string \<times> string) list"

definition console_error :: "string \<Rightarrow> string \<Rightarrow> world \<Rightarrow> world" where
  "console_error label e w = w\<lparr>console := console w @ [(label, e)]\<rparr>"

text \<open>
  \<^verbatim>\<open>chrome.storage.local.get(keys)\<close>: an object holding the requested keys that are
  present in the store. \<^verbatim>\<open>chrome.storage.local.set(items)\<close>: the items overwrite their
  keys and every other key stays. A rejected call is \<open>Inl\<close> and changes nothing.
\<close>

definition storage_local_get :: "host \<Rightarrow> string list \<Rightarrow> world \<Rightarrow> string + jsobject" where
  "storage_local_get h keys w =
     (case storage_get_error h of
        Some e \<Rightarrow> Inl e
      | None \<Rightarrow> Inr (storage w |` set keys))"

definition storage_local_set :: "host \<Rightarrow> jsobject \<Rightarrow> world \<Rightarrow> string + world" where
  "storage_local_set h items w =
     (case storage_set_error h of
        Some e \<Rightarrow> Inl e
      | None \<Rightarrow> Inr (w\<lparr>storage := storage w ++ items\<rparr>))"

text \<open>
  \<^verbatim>\<open>chrome.tabs.query({ url: ["http://*/*", "https://*/*"] })\<close>: the open tabs whose
  URL has one of the two schemes, in the host's order.
\<close>

definition is_web_url :: "string \<Rightarrow> bool" where
  "is_web_url u = (starts_with u ''http://'' \<or> starts_with u ''https://'')"

definition tabs_query :: "host \<Rightarrow> string + tab list" where
  "tabs_query h =
     (case tabs_query_error h of
        Some e \<Rightarrow> Inl e
      | None \<Rightarrow> Inr (filter (\<lambda>t. is_web_url (url t)) (open_tabs h)))"

section \<open>updateActiveWindow (lines 6-15)\<close>

definition updateActiveWindow :: "host \<Rightarrow> world \<Rightarrow> world" where
  "updateActiveWindow h w =
     (case last_focused h of
        Inl e \<Rightarrow> console_error ''Could not update active window:'' e w
      | Inr lastFocused \<Rightarrow>
          (case lastFocused of
             None \<Rightarrow> w
           | Some win \<Rightarrow>
               (case window_id win of
                  None \<Rightarrow> w
                | Some i \<Rightarrow>
                    if truthy (JNum i) then
                      (case storage_local_set h [''activeWindowId'' \<mapsto> JNum i] w of
                         Inl e \<Rightarrow> console_error ''Could not update active window:'' e w
                       | Inr w' \<Rightarrow> w')
                    else w)))"

section \<open>applyStylesToTabs (lines 21-65)\<close>

definition settings_keys :: "string list" where
  "settings_keys =
     [''contrastEnabled'', ''contrastLevel'', ''brightnessLevel'', ''saturationLevel'',
      ''scope'', ''activeWindowId'']"

text \<open>The defaults of lines 29-33; there is no \<^verbatim>\<open>activeWindowId\<close> among them.\<close>

definition defaults :: jsobject where
  "defaults =
     [''contrastEnabled'' \<mapsto> JBool False,
      ''contrastLevel'' \<mapsto> JNum 100,
      ''brightnessLevel'' \<mapsto> JNum 100,
      ''saturationLevel'' \<mapsto> JNum 100,
      ''scope'' \<mapsto> JStr ''all'']"

text \<open>The object spread of lines 28-35: the properties of \<open>settings\<close> come last and win.\<close>

definition finalSettings :: "jsobject \<Rightarrow> jsobject" where
  "finalSettings settings = defaults ++ settings"

text \<open>The decision of lines 41-48 for one tab.\<close>

definition apply_flag :: "jsobject \<Rightarrow> tab \<Rightarrow> bool" where
  "apply_flag fs t =
     (if truthy (get_prop fs ''contrastEnabled'') then
        (if strict_eq (get_prop fs ''scope'') (JStr ''all'') then True
         else if strict_eq (get_prop fs ''scope'') (JStr ''window'')
                 \<and> strict_eq (JNum (windowId t)) (get_prop fs ''activeWindowId'') then True
         else False)
      else False)"

definition applyStyle :: "jsobject \<Rightarrow> tab \<Rightarrow> message" where
  "applyStyle fs t =
     \<lparr>action = ''applyStyle'',
      enabled = apply_flag fs t,
      level = get_prop fs ''contrastLevel'',
      brightness = get_prop fs ''brightnessLevel'',
      saturation = get_prop fs ''saturationLevel''\<rparr>"

text \<open>
  The \<^verbatim>\<open>.catch\<close> handler of lines 56-60. Its only statement is commented out in the
  source, so neither branch writes anything.
\<close>

definition on_send_rejected :: "string \<Rightarrow> (string \<times> string) list" where
  "on_send_rejected msg =
     (if \<not> includes_str msg ''Receiving end does not exist'' then [] else [])"

text \<open>
  One \<^verbatim>\<open>chrome.tabs.sendMessage(tab.id, payload).catch(...)\<close>: the message is handed to
  the host; the promise is not awaited, and a rejection only runs the handler above.
\<close>

definition sendMessage :: "host \<Rightarrow> int \<Rightarrow> message \<Rightarrow> world \<Rightarrow> world" where
  "sendMessage h tid m w =
     (case send_error h tid of
        None \<Rightarrow> w\<lparr>outbox := outbox w @ [(tid, m)], delivered := delivered w @ [(tid, m)]\<rparr>
      | Some e \<Rightarrow> w\<lparr>outbox := outbox w @ [(tid, m)], console := console w @ on_send_rejected e\<rparr>)"

text \<open>The loop of lines 39-61.\<close>

fun send_all :: "host \<Rightarrow> jsobject \<Rightarrow> tab list \<Rightarrow> world \<Rightarrow> world" where
  "send_all h fs [] w = w"
| "send_all h fs (t # ts) w = send_all h fs ts (sendMessage h (tab_id t) (applyStyle fs t) w)"

definition applyStylesToTabs :: "host \<Rightarrow> world \<Rightarrow> world" where
  "applyStylesToTabs h w =
     (case storage_local_get h settings_keys w of
        Inl e \<Rightarrow> console_error ''Error in applyStylesToTabs:'' e w
      | Inr settings \<Rightarrow>
          (case tabs_query h of
             Inl e \<Rightarrow> console_error ''Error in applyStylesToTabs:'' e w
           | Inr tabs \<Rightarrow> send_all h (finalSettings settings) tabs w))"

text \<open>The messages handed to the host between two worlds of one run.\<close>

definition sent_since :: "world \<Rightarrow> world \<Rightarrow> (int \<times> message) list" where
  "sent_since w w' = drop (length (outbox w)) (outbox w')"

section \<open>Event listeners\<close>

text \<open>
  The window-focus listener (lines 103-109). Both calls are awaited, so the second one
  starts from the world the first one left.
\<close>

definition WINDOW_ID_NONE :: int where
  "WINDOW_ID_NONE = - 1"

definition onFocusChanged :: "host \<Rightarrow> int \<Rightarrow> world \<Rightarrow> world" where
  "onFocusChanged h wid w =
     (if wid > 0 then applyStylesToTabs h (updateActiveWindow h w) else w)"

text \<open>
  The command listener (lines 114-119). It has no \<^verbatim>\<open>try\<close>: a rejected storage call
  rejects the listener's own promise (\<open>Inl\<close>), and nothing after it runs.
\<close>

definition onCommand :: "host \<Rightarrow> string \<Rightarrow> world \<Rightarrow> string + world" where
  "onCommand h command w =
     (if command = ''toggle-contrast'' then
        (case storage_local_get h [''contrastEnabled''] w of
           Inl e \<Rightarrow> Inl e
         | Inr r \<Rightarrow>
             storage_local_set h
               [''contrastEnabled'' \<mapsto> JBool (\<not> truthy (get_prop r ''contrastEnabled''))] w)
      else Inr w)"

section \<open>Well-typed values and example data\<close>

text \<open>The data model stores \<^verbatim>\<open>contrastEnabled\<close> as a boolean.\<close>

fun is_boolean :: "jsval \<Rightarrow> bool" where
  "is_boolean (JBool b) = True"
| "is_boolean v = False"

text \<open>
  Two web tabs in two windows and one browser-internal tab; a store with every key set;
  the same store before any window was recorded; a store holding \<^verbatim>\<open>false\<close> and \<^verbatim>\<open>0\<close>.
\<close>

definition tab_a :: tab where
  "tab_a = \<lparr>tab_id = 1, windowId = 10, url = ''https://a''\<rparr>"

definition tab_b :: tab where
  "tab_b = \<lparr>tab_id = 2, windowId = 11, url = ''http://b''\<rparr>"

definition tab_c :: tab where
  "tab_c = \<lparr>tab_id = 3, windowId = 10, url = ''chrome://settings/''\<rparr>"

definition example_host :: host where
  "example_host =
     \<lparr>open_tabs = [tab_a, tab_b, tab_c],
      last_focused = Inr (Some \<lparr>window_id = Some 10\<rparr>),
      storage_get_error = None,
      storage_set_error = None,
      tabs_query_error = None,
      send_error = (\<lambda>tid. None)\<rparr>"

definition example_store :: jsobject where
  "example_store =
     [''contrastEnabled'' \<mapsto> JBool True,
      ''contrastLevel'' \<mapsto> JNum 80,
      ''brightnessLevel'' \<mapsto> JNum 110,
      ''saturationLevel'' \<mapsto> JNum 100,
      ''scope'' \<mapsto> JStr ''window'',
      ''activeWindowId'' \<mapsto> JNum 10]"

definition fresh_store :: jsobject where
  "fresh_store =
     [''contrastEnabled'' \<mapsto> JBool True,
      ''contrastLevel'' \<mapsto> JNum 80,
      ''brightnessLevel'' \<mapsto> JNum 110,
      ''saturationLevel'' \<mapsto> JNum 100,
      ''scope'' \<mapsto> JStr ''window'']"

definition low_store :: jsobject where
  "low_store = [''contrastEnabled'' \<mapsto> JBool False, ''contrastLevel'' \<mapsto> JNum 0]"

definition world_of :: "jsobject \<Rightarrow> world" where
  "world_of s = \<lparr>storage = s, outbox = [], delivered = [], console = []\<rparr>"

definition no_receiver :: "int \<Rightarrow> string option" where
  "no_receiver tid =
     (if tid = 1 then Some ''Could not establish connection. Receiving end does not exist.''
      else None)"

definition style_msg :: "bool \<Rightarrow> int \<Rightarrow> int \<Rightarrow> int \<Rightarrow> message" where
  "style_msg e l b s =
     \<lparr>action = ''applyStyle'', enabled = e, level = JNum l, brightness = JNum b,
      saturation = JNum s\<rparr>"

section \<open>Facts about the loop and the propagation pass\<close>

lemma send_all_storage: "storage (send_all h fs ts w) = storage w"
  by (induction ts arbitrary: w) (auto simp: sendMessage_def split: option.splits)

lemma send_all_outbox:
  "outbox (send_all h fs ts w) = outbox w @ map (\<lambda>t. (tab_id t, applyStyle fs t)) ts"
  by (induction ts arbitrary: w) (auto simp: sendMessage_def split: option.splits)

lemma send_all_delivered:
  "delivered (send_all h fs ts w) =
     delivered w @ map (\<lambda>t. (tab_id t, applyStyle fs t))
                       (filter (\<lambda>t. send_error h (tab_id t) = None) ts)"
  by (induction ts arbitrary: w) (auto simp: sendMessage_def split: option.splits)

lemma send_all_console: "console (send_all h fs ts w) = console w"
  by (induction ts arbitrary: w)
     (auto simp: sendMessage_def on_send_rejected_def split: option.splits)

lemma send_all_eq:
  "send_all h fs ts w =
     w\<lparr>outbox := outbox w @ map (\<lambda>t. (tab_id t, applyStyle fs t)) ts,
       delivered := delivered w @ map (\<lambda>t. (tab_id t, applyStyle fs t))
                       (filter (\<lambda>t. send_error h (tab_id t) = None) ts)\<rparr>"
  by (rule world.equality)
     (simp_all add: send_all_storage send_all_outbox send_all_delivered send_all_console)

lemma sent_since_send_all:
  "sent_since w (send_all h fs ts w) = map (\<lambda>t. (tab_id t, applyStyle fs t)) ts"
  by (simp add: sent_since_def send_all_outbox)

lemma sent_since_console_error: "sent_since w (console_error l e w) = []"
  by (simp add: sent_since_def console_error_def)

lemma applyStylesToTabs_ok:
  "storage_local_get h settings_keys w = Inr settings \<Longrightarrow> tabs_query h = Inr tabs \<Longrightarrow>
     applyStylesToTabs h w = send_all h (finalSettings settings) tabs w"
  by (simp add: applyStylesToTabs_def)

lemma applyStylesToTabs_storage: "storage (applyStylesToTabs h w) = storage w"
  by (simp add: applyStylesToTabs_def console_error_def send_all_storage split: sum.splits)

lemma applyStylesToTabs_outbox:
  "outbox (applyStylesToTabs h w) = outbox w @ sent_since w (applyStylesToTabs h w)"
  by (simp add: applyStylesToTabs_def console_error_def send_all_outbox sent_since_def
      split: sum.splits)

lemma sent_since_applyStylesToTabs_cong:
  "storage w1 = storage w2 \<Longrightarrow>
     sent_since w1 (applyStylesToTabs h w1) = sent_since w2 (applyStylesToTabs h w2)"
  by (simp add: applyStylesToTabs_def storage_local_get_def sent_since_send_all
      sent_since_console_error split: sum.splits option.splits)

lemma storage_local_get_send_error:
  "storage_local_get (h\<lparr>send_error := f\<rparr>) ks w = storage_local_get h ks w"
  by (simp add: storage_local_get_def)

lemma tabs_query_send_error: "tabs_query (h\<lparr>send_error := f\<rparr>) = tabs_query h"
  by (simp add: tabs_query_def split: option.splits)

lemma map_add_restrict_self: "m ++ (m |` K) = m"
  by (rule ext) (simp add: map_add_def restrict_map_def split: option.split)

lemma apply_flag_eq:
  "apply_flag fs t =
     (truthy (get_prop fs ''contrastEnabled'')
      \<and> (get_prop fs ''scope'' = JStr ''all''
         \<or> (get_prop fs ''scope'' = JStr ''window''
            \<and> get_prop fs ''activeWindowId'' = JNum (windowId t))))"
  by (auto simp: apply_flag_def strict_eq_def)

text \<open>The example data, evaluated.\<close>

lemma example_get:
  "storage_local_get example_host settings_keys (world_of s) = Inr (s |` set settings_keys)"
  by (simp add: storage_local_get_def example_host_def world_of_def)

lemma example_query: "tabs_query example_host = Inr [tab_a, tab_b]"
  by (simp add: tabs_query_def example_host_def is_web_url_def starts_with_def
      tab_a_def tab_b_def tab_c_def)

lemma example_applyStyle:
  "applyStyle (finalSettings (example_store |` set settings_keys)) tab_a = style_msg True 80 110 100"
  "applyStyle (finalSettings (example_store |` set settings_keys)) tab_b = style_msg False 80 110 100"
  "applyStyle (finalSettings (fresh_store |` set settings_keys)) tab_a = style_msg False 80 110 100"
  "applyStyle (finalSettings (fresh_store |` set settings_keys)) tab_b = style_msg False 80 110 100"
  by (simp_all add: applyStyle_def apply_flag_eq get_prop_def finalSettings_def defaults_def
      example_store_def fresh_store_def settings_keys_def map_add_def restrict_map_def
      tab_a_def tab_b_def style_msg_def)

lemma example_tabs:
  "tab_id tab_a = 1" "tab_id tab_b = 2" "windowId tab_a = 10" "windowId tab_b = 11"
  by (simp_all add: tab_a_def tab_b_def)

lemma example_sent:
  "sent_since (world_of s) (applyStylesToTabs example_host (world_of s))
     = [(1, applyStyle (finalSettings (s |` set settings_keys)) tab_a),
        (2, applyStyle (finalSettings (s |` set settings_keys)) tab_b)]"
  by (simp add: applyStylesToTabs_ok [OF example_get example_query] sent_since_send_all
      example_tabs del: send_all.simps)

section \<open>The claims\<close>

subsection \<open>The per-tab policy\<close>

text \<open>
  Claim C1. When the storage read and the tab query succeed, one pass hands exactly one
  message to every enumerated tab, in order, and the \<open>enabled\<close> flag of the message for a
  tab follows the policy: it is false when \<^verbatim>\<open>contrastEnabled\<close> is not true; it is true
  when \<^verbatim>\<open>contrastEnabled\<close> is true and the scope is \<^verbatim>\<open>'all'\<close>; and when
  \<^verbatim>\<open>contrastEnabled\<close> is true and the scope is \<^verbatim>\<open>'window'\<close> it is true if and only
  if the tab's \<^verbatim>\<open>windowId\<close> is the stored \<^verbatim>\<open>activeWindowId\<close>. The source tests
  \<^verbatim>\<open>contrastEnabled\<close> with \<^verbatim>\<open>if (...)\<close>, so the three cases are stated with \<open>truthy\<close>;
  the last conjunct says that on the booleans of the data model this is equality with
  \<^verbatim>\<open>true\<close>. The settings are the merged ones, so an absent key counts with its default.
\<close>

theorem enabled_policy:
  assumes "storage_local_get h settings_keys w = Inr settings"
    and "tabs_query h = Inr tabs"
    and "fs = finalSettings settings"
  shows "sent_since w (applyStylesToTabs h w) = map (\<lambda>t. (tab_id t, applyStyle fs t)) tabs
       \<and> (\<forall>t \<in> set tabs.
            (\<not> truthy (get_prop fs ''contrastEnabled'') \<longrightarrow> enabled (applyStyle fs t) = False)
          \<and> (truthy (get_prop fs ''contrastEnabled'') \<and> get_prop fs ''scope'' = JStr ''all''
               \<longrightarrow> enabled (applyStyle fs t) = True)
          \<and> (truthy (get_prop fs ''contrastEnabled'') \<and> get_prop fs ''scope'' = JStr ''window''
               \<longrightarrow> enabled (applyStyle fs t)
                     = (get_prop fs ''activeWindowId'' = JNum (windowId t))))
       \<and> (is_boolean (get_prop fs ''contrastEnabled'')
            \<longrightarrow> truthy (get_prop fs ''contrastEnabled'')
                  = (get_prop fs ''contrastEnabled'' = JBool True))"
proof -
  have sent: "sent_since w (applyStylesToTabs h w) = map (\<lambda>t. (tab_id t, applyStyle fs t)) tabs"
    using assms by (simp add: applyStylesToTabs_ok sent_since_send_all)
  have en: "enabled (applyStyle fs t) = apply_flag fs t" for t
    by (simp add: applyStyle_def)
  have b: "is_boolean v \<longrightarrow> truthy v = (v = JBool True)" for v
    by (cases v) auto
  show ?thesis
    unfolding en apply_flag_eq using sent b by auto
qed

theorem enabled_policy_witness:
  "sent_since (world_of example_store) (applyStylesToTabs example_host (world_of example_store))
     = [(1, style_msg True 80 110 100), (2, style_msg False 80 110 100)]
   \<and> get_prop (finalSettings (example_store |` set settings_keys)) ''contrastEnabled'' = JBool True
   \<and> get_prop (finalSettings (example_store |` set settings_keys)) ''scope'' = JStr ''window''
   \<and> get_prop (finalSettings (example_store |` set settings_keys)) ''activeWindowId'' = JNum 10
   \<and> enabled (applyStyle (finalSettings (example_store |` set settings_keys)) tab_a) = True
   \<and> enabled (applyStyle (finalSettings (example_store |` set settings_keys)) tab_b) = False"
proof -
  have vals:
    "get_prop (finalSettings (example_store |` set settings_keys)) ''contrastEnabled'' = JBool True"
    "get_prop (finalSettings (example_store |` set settings_keys)) ''scope'' = JStr ''window''"
    "get_prop (finalSettings (example_store |` set settings_keys)) ''activeWindowId'' = JNum 10"
    by (simp_all add: get_prop_def finalSettings_def defaults_def example_store_def
        settings_keys_def map_add_def restrict_map_def)
  from enabled_policy [OF example_get example_query refl, of example_store]
  show ?thesis
    by (simp add: vals example_applyStyle example_tabs style_msg_def)
qed

subsection \<open>Merging with the defaults\<close>

text \<open>
  Claim C2. A pass over an empty store and a pass over a store that holds exactly the
  documented defaults (and no \<^verbatim>\<open>activeWindowId\<close>) end in the same world but for the store
  itself: the same messages are handed to the same tabs, the same ones are delivered,
  and the same lines are logged, whatever the host answers.
\<close>

theorem default_merge_law:
  "applyStylesToTabs h (w\<lparr>storage := Map.empty\<rparr>)
     = (applyStylesToTabs h
          (w\<lparr>storage := [''contrastEnabled'' \<mapsto> JBool False,
                          ''contrastLevel'' \<mapsto> JNum 100,
                          ''brightnessLevel'' \<mapsto> JNum 100,
                          ''saturationLevel'' \<mapsto> JNum 100,
                          ''scope'' \<mapsto> JStr ''all'']\<rparr>))\<lparr>storage := Map.empty\<rparr>"
proof -
  have fs: "finalSettings (defaults |` set settings_keys)
              = finalSettings (Map.empty |` set settings_keys)"
    by (simp add: finalSettings_def map_add_restrict_self)
  show ?thesis
    unfolding defaults_def [symmetric]
    by (simp add: applyStylesToTabs_def storage_local_get_def fs console_error_def
        send_all_eq split: option.splits sum.splits)
qed

text \<open>
  Claim C3. The object read from storage holds the stored value of each of the six keys;
  a key present in it keeps its value in the merged settings, whatever the value
  (\<^verbatim>\<open>false\<close> and \<^verbatim>\<open>0\<close> included); only a key missing from it takes the default; and the
  messages of the pass are built from these merged settings.
\<close>

theorem merge_keeps_present_values:
  assumes "storage_local_get h settings_keys w = Inr settings"
  shows "(k \<in> set settings_keys \<longrightarrow> settings k = storage w k)
       \<and> (settings k = Some v \<longrightarrow> finalSettings settings k = Some v)
       \<and> (settings k = None \<longrightarrow> finalSettings settings k = defaults k)
       \<and> (tabs_query h = Inr tabs \<longrightarrow>
            sent_since w (applyStylesToTabs h w) =
              map (\<lambda>t. (tab_id t, applyStyle (finalSettings settings) t)) tabs)"
proof -
  from assms have s: "settings = storage w |` set settings_keys"
    by (simp add: storage_local_get_def split: option.splits)
  have "k \<in> set settings_keys \<longrightarrow> settings k = storage w k"
    by (simp add: s)
  moreover have "settings k = Some v \<longrightarrow> finalSettings settings k = Some v"
    by (simp add: finalSettings_def)
  moreover have "settings k = None \<longrightarrow> finalSettings settings k = defaults k"
    by (simp add: finalSettings_def map_add_def)
  moreover have "tabs_query h = Inr tabs \<longrightarrow>
            sent_since w (applyStylesToTabs h w) =
              map (\<lambda>t. (tab_id t, applyStyle (finalSettings settings) t)) tabs"
    using assms by (simp add: applyStylesToTabs_ok sent_since_send_all)
  ultimately show ?thesis by blast
qed

theorem merge_keeps_present_values_witness:
  "finalSettings (low_store |` set settings_keys) ''contrastLevel'' = Some (JNum 0)
   \<and> finalSettings (low_store |` set settings_keys) ''contrastEnabled'' = Some (JBool False)
   \<and> finalSettings (low_store |` set settings_keys) ''scope'' = Some (JStr ''all'')
   \<and> sent_since (world_of low_store) (applyStylesToTabs example_host (world_of low_store))
       = [(1, style_msg False 0 100 100), (2, style_msg False 0 100 100)]"
proof -
  let ?s = "low_store |` set settings_keys"
  have stored:
    "?s ''contrastLevel'' = Some (JNum 0)" "?s ''contrastEnabled'' = Some (JBool False)"
    "?s ''scope'' = None" "defaults ''scope'' = Some (JStr ''all'')"
    by (simp_all add: low_store_def settings_keys_def restrict_map_def defaults_def)
  note m = merge_keeps_present_values
    [where h = example_host and w = "world_of low_store" and settings = "?s"
       and tabs = "[tab_a, tab_b]", OF example_get]
  have fs:
    "finalSettings ?s ''contrastLevel'' = Some (JNum 0)"
    "finalSettings ?s ''contrastEnabled'' = Some (JBool False)"
    "finalSettings ?s ''scope'' = Some (JStr ''all'')"
    using m [where k = "''contrastLevel''" and v = "JNum 0"]
      m [where k = "''contrastEnabled''" and v = "JBool False"]
      m [where k = "''scope''" and v = "JNull"] stored
    by simp_all
  have lv: "finalSettings ?s ''brightnessLevel'' = Some (JNum 100)"
    "finalSettings ?s ''saturationLevel'' = Some (JNum 100)"
    by (simp_all add: finalSettings_def low_store_def settings_keys_def restrict_map_def
        defaults_def map_add_def)
  have "sent_since (world_of low_store) (applyStylesToTabs example_host (world_of low_store))
       = map (\<lambda>t. (tab_id t, applyStyle (finalSettings ?s) t)) [tab_a, tab_b]"
    using m [where k = "''scope''" and v = "JNull"] example_query by simp
  then show ?thesis
    using fs lv
    by (simp add: applyStyle_def apply_flag_eq get_prop_def style_msg_def example_tabs)
qed

subsection \<open>Idempotence\<close>

text \<open>
  Claim C4. When the storage read and the tab query succeed, the first pass hands one
  message with its computed payload to each enumerated tab, and a second pass right
  after it, with the same host answers, hands the very same messages to the same tabs in
  the same order: the outbox grows by two copies of the per-tab list, the deliveries by
  two copies of the delivered ones, and nothing else in the world changes, so the store
  and the log after both passes are those before them. For every host, also a failing
  one, the second pass sends what the first one sent and the store is unchanged.
\<close>

theorem applyStylesToTabs_idempotent:
  "sent_since (applyStylesToTabs h w) (applyStylesToTabs h (applyStylesToTabs h w))
     = sent_since w (applyStylesToTabs h w)
   \<and> outbox (applyStylesToTabs h (applyStylesToTabs h w))
     = outbox w @ sent_since w (applyStylesToTabs h w) @ sent_since w (applyStylesToTabs h w)
   \<and> storage (applyStylesToTabs h (applyStylesToTabs h w)) = storage w
   \<and> (storage_local_get h settings_keys w = Inr settings \<and> tabs_query h = Inr tabs
        \<longrightarrow> sent_since w (applyStylesToTabs h w)
              = map (\<lambda>t. (tab_id t, applyStyle (finalSettings settings) t)) tabs
          \<and> sent_since (applyStylesToTabs h w) (applyStylesToTabs h (applyStylesToTabs h w))
              = map (\<lambda>t. (tab_id t, applyStyle (finalSettings settings) t)) tabs
          \<and> applyStylesToTabs h (applyStylesToTabs h w)
              = w\<lparr>outbox := outbox w
                       @ map (\<lambda>t. (tab_id t, applyStyle (finalSettings settings) t)) tabs
                       @ map (\<lambda>t. (tab_id t, applyStyle (finalSettings settings) t)) tabs,
                   delivered := delivered w
                       @ map (\<lambda>t. (tab_id t, applyStyle (finalSettings settings) t))
                           (filter (\<lambda>t. send_error h (tab_id t) = None) tabs)
                       @ map (\<lambda>t. (tab_id t, applyStyle (finalSettings settings) t))
                           (filter (\<lambda>t. send_error h (tab_id t) = None) tabs)\<rparr>)"
proof -
  have 1: "sent_since (applyStylesToTabs h w) (applyStylesToTabs h (applyStylesToTabs h w))
     = sent_since w (applyStylesToTabs h w)"
    by (rule sent_since_applyStylesToTabs_cong) (rule applyStylesToTabs_storage)
  have 2: "outbox (applyStylesToTabs h (applyStylesToTabs h w))
     = outbox w @ sent_since w (applyStylesToTabs h w) @ sent_since w (applyStylesToTabs h w)"
    using applyStylesToTabs_outbox [of h "applyStylesToTabs h w"]
          applyStylesToTabs_outbox [of h w] 1 by simp
  have 3: "storage (applyStylesToTabs h (applyStylesToTabs h w)) = storage w"
    by (simp add: applyStylesToTabs_storage)
  have 4: "sent_since w (applyStylesToTabs h w)
              = map (\<lambda>t. (tab_id t, applyStyle (finalSettings settings) t)) tabs"
    if "storage_local_get h settings_keys w = Inr settings" "tabs_query h = Inr tabs"
    using that by (simp add: applyStylesToTabs_ok sent_since_send_all)
  have 5: "applyStylesToTabs h (applyStylesToTabs h w)
              = w\<lparr>outbox := outbox w
                       @ map (\<lambda>t. (tab_id t, applyStyle (finalSettings settings) t)) tabs
                       @ map (\<lambda>t. (tab_id t, applyStyle (finalSettings settings) t)) tabs,
                   delivered := delivered w
                       @ map (\<lambda>t. (tab_id t, applyStyle (finalSettings settings) t))
                           (filter (\<lambda>t. send_error h (tab_id t) = None) tabs)
                       @ map (\<lambda>t. (tab_id t, applyStyle (finalSettings settings) t))
                           (filter (\<lambda>t. send_error h (tab_id t) = None) tabs)\<rparr>"
    if get: "storage_local_get h settings_keys w = Inr settings" and q: "tabs_query h = Inr tabs"
  proof -
    have first: "applyStylesToTabs h w = send_all h (finalSettings settings) tabs w"
      using get q by (rule applyStylesToTabs_ok)
    have "storage (send_all h (finalSettings settings) tabs w) = storage w"
      by (rule send_all_storage)
    then have "storage_local_get h settings_keys (send_all h (finalSettings settings) tabs w)
                 = Inr settings"
      using get by (simp add: storage_local_get_def split: option.splits)
    then have "applyStylesToTabs h (send_all h (finalSettings settings) tabs w)
                 = send_all h (finalSettings settings) tabs
                     (send_all h (finalSettings settings) tabs w)"
      using q by (rule applyStylesToTabs_ok)
    then show ?thesis
      unfolding first by (simp add: send_all_eq)
  qed
  have 6: "sent_since (applyStylesToTabs h w) (applyStylesToTabs h (applyStylesToTabs h w))
              = map (\<lambda>t. (tab_id t, applyStyle (finalSettings settings) t)) tabs"
    if "storage_local_get h settings_keys w = Inr settings" "tabs_query h = Inr tabs"
    using 1 4 [OF that] by (rule trans)
  show ?thesis
    using 1 2 3 4 5 6 by blast
qed

theorem applyStylesToTabs_idempotent_witness:
  "outbox (applyStylesToTabs example_host (applyStylesToTabs example_host (world_of example_store)))
     = [(1, style_msg True 80 110 100), (2, style_msg False 80 110 100),
        (1, style_msg True 80 110 100), (2, style_msg False 80 110 100)]
   \<and> storage (applyStylesToTabs example_host (applyStylesToTabs example_host (world_of example_store)))
     = example_store
   \<and> console (applyStylesToTabs example_host (applyStylesToTabs example_host (world_of example_store)))
     = []"
proof -
  let ?w = "world_of example_store"
  let ?fs = "finalSettings (example_store |` set settings_keys)"
  note T = applyStylesToTabs_idempotent
    [of example_host ?w "example_store |` set settings_keys" "[tab_a, tab_b]"]
  from T example_get [of example_store] example_query
  have eq: "applyStylesToTabs example_host (applyStylesToTabs example_host ?w)
      = ?w\<lparr>outbox := outbox ?w
                 @ map (\<lambda>t. (tab_id t, applyStyle ?fs t)) [tab_a, tab_b]
                 @ map (\<lambda>t. (tab_id t, applyStyle ?fs t)) [tab_a, tab_b],
             delivered := delivered ?w
                 @ map (\<lambda>t. (tab_id t, applyStyle ?fs t))
                     (filter (\<lambda>t. send_error example_host (tab_id t) = None) [tab_a, tab_b])
                 @ map (\<lambda>t. (tab_id t, applyStyle ?fs t))
                     (filter (\<lambda>t. send_error example_host (tab_id t) = None) [tab_a, tab_b])\<rparr>"
    by blast
  show ?thesis
    unfolding eq by (simp add: example_applyStyle example_tabs world_of_def)
qed

subsection \<open>Failures\<close>

text \<open>
  Claim C5. Whatever set of tabs rejects its message, and with whatever error (the
  absent-receiver error included), a pass whose storage read and tab query succeed hands
  one message, with the payload computed for it, to each enumerated tab in order. The
  sends that are not rejected are delivered, and the rejections write nothing.
\<close>

theorem send_failure_never_stops_pass:
  assumes "storage_local_get h settings_keys w = Inr settings"
    and "tabs_query h = Inr tabs"
  shows "sent_since w (applyStylesToTabs (h\<lparr>send_error := f\<rparr>) w)
           = map (\<lambda>t. (tab_id t, applyStyle (finalSettings settings) t)) tabs
       \<and> delivered (applyStylesToTabs (h\<lparr>send_error := f\<rparr>) w)
           = delivered w @ map (\<lambda>t. (tab_id t, applyStyle (finalSettings settings) t))
                               (filter (\<lambda>t. f (tab_id t) = None) tabs)
       \<and> console (applyStylesToTabs (h\<lparr>send_error := f\<rparr>) w) = console w"
proof -
  have "applyStylesToTabs (h\<lparr>send_error := f\<rparr>) w
          = send_all (h\<lparr>send_error := f\<rparr>) (finalSettings settings) tabs w"
    using assms
    by (simp add: applyStylesToTabs_ok storage_local_get_send_error tabs_query_send_error)
  then show ?thesis
    by (simp add: sent_since_send_all send_all_delivered send_all_console)
qed

theorem send_failure_never_stops_pass_witness:
  "no_receiver 1 = Some ''Could not establish connection. Receiving end does not exist.''
   \<and> sent_since (world_of example_store)
        (applyStylesToTabs (example_host\<lparr>send_error := no_receiver\<rparr>) (world_of example_store))
       = [(1, style_msg True 80 110 100), (2, style_msg False 80 110 100)]
   \<and> delivered
        (applyStylesToTabs (example_host\<lparr>send_error := no_receiver\<rparr>) (world_of example_store))
       = [(2, style_msg False 80 110 100)]"
  using send_failure_never_stops_pass [OF example_get example_query, of example_store no_receiver]
  by (simp add: example_applyStyle example_tabs no_receiver_def world_of_def)

text \<open>
  Claim C6. The store after a pass is the store before it, for every host. When the
  storage read or the tab query is rejected, the pass only logs the error: no message is
  handed to the host and none is delivered.
\<close>

theorem applyStylesToTabs_mutates_nothing:
  "storage (applyStylesToTabs h w) = storage w
   \<and> (storage_get_error h = Some e \<or> (storage_get_error h = None \<and> tabs_query_error h = Some e)
        \<longrightarrow> applyStylesToTabs h w = console_error ''Error in applyStylesToTabs:'' e w
          \<and> outbox (applyStylesToTabs h w) = outbox w
          \<and> delivered (applyStylesToTabs h w) = delivered w)"
proof -
  have fail: "applyStylesToTabs h w = console_error ''Error in applyStylesToTabs:'' e w"
    if "storage_get_error h = Some e \<or> (storage_get_error h = None \<and> tabs_query_error h = Some e)"
    using that
    by (auto simp: applyStylesToTabs_def storage_local_get_def tabs_query_def)
  show ?thesis
    using fail by (auto simp: applyStylesToTabs_storage console_error_def)
qed

theorem applyStylesToTabs_mutates_nothing_witness:
  "storage (applyStylesToTabs (example_host\<lparr>storage_get_error := Some ''storage unavailable''\<rparr>)
             (world_of example_store)) = example_store
   \<and> outbox (applyStylesToTabs (example_host\<lparr>storage_get_error := Some ''storage unavailable''\<rparr>)
             (world_of example_store)) = []
   \<and> applyStylesToTabs (example_host\<lparr>tabs_query_error := Some ''query failed''\<rparr>)
             (world_of example_store)
       = (world_of example_store)\<lparr>console := [(''Error in applyStylesToTabs:'', ''query failed'')]\<rparr>
   \<and> storage (applyStylesToTabs example_host (world_of example_store)) = example_store"
  using applyStylesToTabs_mutates_nothing
      [of "example_host\<lparr>storage_get_error := Some ''storage unavailable''\<rparr>"
          "world_of example_store" "''storage unavailable''"]
    applyStylesToTabs_mutates_nothing
      [of "example_host\<lparr>tabs_query_error := Some ''query failed''\<rparr>"
          "world_of example_store" "''query failed''"]
    applyStylesToTabs_mutates_nothing [of example_host "world_of example_store" "''''"]
  by (simp add: example_host_def world_of_def console_error_def)

subsection \<open>The listeners\<close>

text \<open>
  Claim C7. When the storage calls succeed, the \<^verbatim>\<open>toggle-contrast\<close> command ends in the
  world it started from with one change: \<^verbatim>\<open>contrastEnabled\<close> holds the negation
  (\<^verbatim>\<open>!\<close>) of the value read for it. Every other key, the outbox, the deliveries and the
  log are as before, so the listener itself sends no message.
\<close>

theorem toggle_contrast_writes_negation:
  assumes "storage_get_error h = None" and "storage_set_error h = None"
  shows "onCommand h ''toggle-contrast'' w
           = Inr (w\<lparr>storage := (storage w)(''contrastEnabled'' \<mapsto>
                      JBool (\<not> truthy (get_prop (storage w) ''contrastEnabled'')))\<rparr>)"
  using assms
  by (simp add: onCommand_def storage_local_get_def storage_local_set_def get_prop_def
      restrict_map_def)

theorem toggle_contrast_writes_negation_witness:
  "onCommand example_host ''toggle-contrast'' (world_of example_store)
     = Inr (world_of (example_store(''contrastEnabled'' \<mapsto> JBool False)))
   \<and> onCommand example_host ''toggle-contrast'' (world_of Map.empty)
     = Inr (world_of [''contrastEnabled'' \<mapsto> JBool True])
   \<and> sent_since (world_of example_store)
        (applyStylesToTabs example_host (world_of example_store))
       = [(1, style_msg True 80 110 100), (2, style_msg False 80 110 100)]
   \<and> sent_since (world_of (example_store(''contrastEnabled'' \<mapsto> JBool False)))
        (applyStylesToTabs example_host
           (world_of (example_store(''contrastEnabled'' \<mapsto> JBool False))))
       = [(1, style_msg False 80 110 100), (2, style_msg False 80 110 100)]"
proof -
  have ok: "storage_get_error example_host = None" "storage_set_error example_host = None"
    by (simp_all add: example_host_def)
  have after: "sent_since (world_of (example_store(''contrastEnabled'' \<mapsto> JBool False)))
        (applyStylesToTabs example_host
           (world_of (example_store(''contrastEnabled'' \<mapsto> JBool False))))
       = [(1, style_msg False 80 110 100), (2, style_msg False 80 110 100)]"
    unfolding example_sent
    by (simp add: applyStyle_def apply_flag_eq get_prop_def finalSettings_def defaults_def
        example_store_def settings_keys_def map_add_def restrict_map_def style_msg_def)
  have sent: "sent_since (world_of example_store)
        (applyStylesToTabs example_host (world_of example_store))
       = [(1, style_msg True 80 110 100), (2, style_msg False 80 110 100)]"
    by (simp add: example_sent example_applyStyle)
  show ?thesis
    using toggle_contrast_writes_negation [OF ok, of "world_of example_store"]
      toggle_contrast_writes_negation [OF ok, of "world_of Map.empty"] sent after
    by (simp add: world_of_def get_prop_def example_store_def)
qed

text \<open>
  Claim C8. The host delivers to the focus listener either the id of a real window,
  which is a positive number, or the sentinel \<open>WINDOW_ID_NONE\<close>. For an id greater than
  zero the listener is \<open>updateActiveWindow\<close> followed by \<open>applyStylesToTabs\<close> on the
  world the update left; for the sentinel (as for any id that is not positive) the world
  is untouched. When the update records window \<open>i\<close> and the pass succeeds, the messages
  are computed from the store with \<^verbatim>\<open>activeWindowId\<close> already set to \<open>i\<close>.
\<close>

theorem focus_change_updates_then_propagates:
  "(0 < wid \<longrightarrow> onFocusChanged h wid w = applyStylesToTabs h (updateActiveWindow h w))
   \<and> (wid = WINDOW_ID_NONE \<or> wid \<le> 0 \<longrightarrow> onFocusChanged h wid w = w)
   \<and> (0 < wid \<and> last_focused h = Inr (Some win) \<and> window_id win = Some i \<and> i \<noteq> 0
        \<and> storage_set_error h = None \<and> storage_get_error h = None \<and> tabs_query h = Inr tabs
        \<longrightarrow> sent_since w (onFocusChanged h wid w)
              = map (\<lambda>t. (tab_id t,
                     applyStyle (finalSettings
                       ((storage w)(''activeWindowId'' \<mapsto> JNum i) |` set settings_keys)) t)) tabs)"
proof -
  have upd: "updateActiveWindow h w = w\<lparr>storage := (storage w)(''activeWindowId'' \<mapsto> JNum i)\<rparr>"
    if "last_focused h = Inr (Some win)" "window_id win = Some i" "i \<noteq> 0"
       "storage_set_error h = None"
    using that by (simp add: updateActiveWindow_def storage_local_set_def)
  have sent: "sent_since w (applyStylesToTabs h (w\<lparr>storage := s\<rparr>))
                = map (\<lambda>t. (tab_id t, applyStyle (finalSettings (s |` set settings_keys)) t)) tabs"
    if "storage_get_error h = None" "tabs_query h = Inr tabs" for s
    using that
    by (simp add: applyStylesToTabs_def storage_local_get_def send_all_outbox sent_since_def)
  show ?thesis
    using upd sent by (auto simp: onFocusChanged_def WINDOW_ID_NONE_def)
qed

theorem focus_change_updates_then_propagates_witness:
  "sent_since (world_of fresh_store) (onFocusChanged example_host 10 (world_of fresh_store))
     = [(1, style_msg True 80 110 100), (2, style_msg False 80 110 100)]
   \<and> sent_since (world_of fresh_store) (applyStylesToTabs example_host (world_of fresh_store))
     = [(1, style_msg False 80 110 100), (2, style_msg False 80 110 100)]
   \<and> storage (onFocusChanged example_host 10 (world_of fresh_store)) = example_store
   \<and> onFocusChanged example_host WINDOW_ID_NONE (world_of fresh_store) = world_of fresh_store"
proof -
  have st: "fresh_store(''activeWindowId'' \<mapsto> JNum 10) = example_store"
    by (rule ext) (simp add: fresh_store_def example_store_def)
  have upd: "updateActiveWindow example_host (world_of fresh_store) = world_of example_store"
    by (simp add: updateActiveWindow_def example_host_def storage_local_set_def world_of_def
        st [symmetric])
  have plain: "sent_since (world_of fresh_store) (applyStylesToTabs example_host (world_of fresh_store))
     = [(1, style_msg False 80 110 100), (2, style_msg False 80 110 100)]"
    by (simp add: example_sent example_applyStyle)
  have h: "last_focused example_host = Inr (Some \<lparr>window_id = Some 10\<rparr>)"
    "storage_set_error example_host = None" "storage_get_error example_host = None"
    by (simp_all add: example_host_def)
  have p: "0 < (10::int)" "window_id \<lparr>window_id = Some 10\<rparr> = Some 10" "(10::int) \<noteq> 0"
    by simp_all
  note T = focus_change_updates_then_propagates
    [of 10 example_host "world_of fresh_store" "\<lparr>window_id = Some 10\<rparr>" 10 "[tab_a, tab_b]"]
  from T p have a: "onFocusChanged example_host 10 (world_of fresh_store)
      = applyStylesToTabs example_host (updateActiveWindow example_host (world_of fresh_store))"
    by blast
  from T p h example_query
  have b: "sent_since (world_of fresh_store) (onFocusChanged example_host 10 (world_of fresh_store))
      = map (\<lambda>t. (tab_id t, applyStyle (finalSettings
           ((storage (world_of fresh_store))(''activeWindowId'' \<mapsto> JNum 10)
              |` set settings_keys)) t)) [tab_a, tab_b]"
    by blast
  have c: "(storage (world_of fresh_store))(''activeWindowId'' \<mapsto> JNum 10) = example_store"
    by (simp add: world_of_def st)
  have sent: "sent_since (world_of fresh_store) (onFocusChanged example_host 10 (world_of fresh_store))
     = [(1, style_msg True 80 110 100), (2, style_msg False 80 110 100)]"
    unfolding b c by (simp add: example_applyStyle example_tabs)
  have stor: "storage (onFocusChanged example_host 10 (world_of fresh_store)) = example_store"
    unfolding a applyStylesToTabs_storage upd by (simp add: world_of_def)
  have none: "onFocusChanged example_host WINDOW_ID_NONE (world_of fresh_store) = world_of fresh_store"
    using focus_change_updates_then_propagates
      [of WINDOW_ID_NONE example_host "world_of fresh_store" "\<lparr>window_id = Some 10\<rparr>" 10
          "[tab_a, tab_b]"]
    by blast
  show ?thesis
    using sent plain stor none by simp
qed

subsection \<open>The active window\<close>

text \<open>
  Claim C9. \<open>updateActiveWindow\<close> changes no key other than \<^verbatim>\<open>activeWindowId\<close>. When
  the host reports a last-focused window whose id passes the source's test (present and
  not zero) and the write succeeds, the result is the starting world with that id stored
  under \<^verbatim>\<open>activeWindowId\<close>. When the window query or the write is rejected, the error
  is logged and the store is as before. When there is no window, or its id is missing or
  zero, the world is untouched.
\<close>

theorem updateActiveWindow_writes_one_key:
  "(last_focused h = Inr (Some win) \<and> window_id win = Some i \<and> i \<noteq> 0
      \<and> storage_set_error h = None
      \<longrightarrow> updateActiveWindow h w = w\<lparr>storage := (storage w)(''activeWindowId'' \<mapsto> JNum i)\<rparr>)
   \<and> (last_focused h = Inl e
        \<or> (last_focused h = Inr (Some win) \<and> window_id win = Some i \<and> i \<noteq> 0
            \<and> storage_set_error h = Some e)
      \<longrightarrow> updateActiveWindow h w = console_error ''Could not update active window:'' e w
        \<and> storage (updateActiveWindow h w) = storage w)
   \<and> (last_focused h = Inr None
        \<or> (last_focused h = Inr (Some win) \<and> (window_id win = None \<or> window_id win = Some 0))
      \<longrightarrow> updateActiveWindow h w = w)
   \<and> (k \<noteq> ''activeWindowId'' \<longrightarrow> storage (updateActiveWindow h w) k = storage w k)"
proof -
  have written: "updateActiveWindow h w = w\<lparr>storage := (storage w)(''activeWindowId'' \<mapsto> JNum i)\<rparr>"
    if "last_focused h = Inr (Some win)" "window_id win = Some i" "i \<noteq> 0"
       "storage_set_error h = None"
    using that by (simp add: updateActiveWindow_def storage_local_set_def)
  have logged: "updateActiveWindow h w = console_error ''Could not update active window:'' e w"
    if "last_focused h = Inl e
        \<or> (last_focused h = Inr (Some win) \<and> window_id win = Some i \<and> i \<noteq> 0
            \<and> storage_set_error h = Some e)"
    using that by (auto simp: updateActiveWindow_def storage_local_set_def)
  have skipped: "updateActiveWindow h w = w"
    if "last_focused h = Inr None
        \<or> (last_focused h = Inr (Some win) \<and> (window_id win = None \<or> window_id win = Some 0))"
    using that by (auto simp: updateActiveWindow_def)
  have frame: "storage (updateActiveWindow h w) k = storage w k" if "k \<noteq> ''activeWindowId''"
    using that
    by (auto simp: updateActiveWindow_def storage_local_set_def console_error_def
        split: sum.splits option.splits)
  have kept: "storage (console_error ''Could not update active window:'' e w) = storage w"
    by (simp add: console_error_def)
  show ?thesis
    using written logged skipped frame kept by metis
qed

theorem updateActiveWindow_writes_one_key_witness:
  "updateActiveWindow example_host (world_of fresh_store) = world_of example_store
   \<and> updateActiveWindow (example_host\<lparr>last_focused := Inl ''No last-focused window''\<rparr>)
        (world_of fresh_store)
       = (world_of fresh_store)\<lparr>console :=
            [(''Could not update active window:'', ''No last-focused window'')]\<rparr>
   \<and> updateActiveWindow (example_host\<lparr>storage_set_error := Some ''quota exceeded''\<rparr>)
        (world_of fresh_store)
       = (world_of fresh_store)\<lparr>console :=
            [(''Could not update active window:'', ''quota exceeded'')]\<rparr>
   \<and> updateActiveWindow (example_host\<lparr>last_focused := Inr (Some \<lparr>window_id = None\<rparr>)\<rparr>)
        (world_of fresh_store) = world_of fresh_store
   \<and> storage (updateActiveWindow example_host (world_of fresh_store)) ''scope''
       = Some (JStr ''window'')"
proof -
  let ?w = "world_of fresh_store"
  let ?win = "\<lparr>window_id = Some 10\<rparr>"
  have st: "fresh_store(''activeWindowId'' \<mapsto> JNum 10) = example_store"
    by (rule ext) (simp add: fresh_store_def example_store_def)
  have 1: "updateActiveWindow example_host ?w = world_of example_store"
    using updateActiveWindow_writes_one_key [of example_host ?win 10 ?w]
    by (simp add: example_host_def world_of_def st)
  have 2: "updateActiveWindow (example_host\<lparr>last_focused := Inl ''No last-focused window''\<rparr>) ?w
       = ?w\<lparr>console := [(''Could not update active window:'', ''No last-focused window'')]\<rparr>"
    using updateActiveWindow_writes_one_key
      [of "example_host\<lparr>last_focused := Inl ''No last-focused window''\<rparr>" ?win 10 ?w
          "''No last-focused window''"]
    by (simp add: console_error_def world_of_def)
  have 3: "updateActiveWindow (example_host\<lparr>storage_set_error := Some ''quota exceeded''\<rparr>) ?w
       = ?w\<lparr>console := [(''Could not update active window:'', ''quota exceeded'')]\<rparr>"
    using updateActiveWindow_writes_one_key
      [of "example_host\<lparr>storage_set_error := Some ''quota exceeded''\<rparr>" ?win 10 ?w
          "''quota exceeded''"]
    by (simp add: example_host_def console_error_def world_of_def)
  have 4: "updateActiveWindow (example_host\<lparr>last_focused := Inr (Some \<lparr>window_id = None\<rparr>)\<rparr>) ?w = ?w"
    using updateActiveWindow_writes_one_key
      [of "example_host\<lparr>last_focused := Inr (Some \<lparr>window_id = None\<rparr>)\<rparr>"
          "\<lparr>window_id = None\<rparr>" 10 ?w]
    by simp
  have 5: "storage (updateActiveWindow example_host ?w) ''scope'' = Some (JStr ''window'')"
    using updateActiveWindow_writes_one_key [of example_host ?win 10 ?w _ "''scope''"]
    by (simp add: world_of_def fresh_store_def)
  show ?thesis using 1 2 3 4 5 by simp
qed

text \<open>
  Claim C10. With \<^verbatim>\<open>contrastEnabled\<close> stored as \<^verbatim>\<open>true\<close>, the scope stored as
  \<^verbatim>\<open>'window'\<close> and no \<^verbatim>\<open>activeWindowId\<close> in the store, every message of a pass has
  \<open>enabled\<close> false; and when the storage read and the tab query succeed there is one
  such message for each enumerated tab.
\<close>

theorem window_scope_without_active_window:
  assumes "storage w ''contrastEnabled'' = Some (JBool True)"
    and "storage w ''scope'' = Some (JStr ''window'')"
    and "storage w ''activeWindowId'' = None"
  shows "(\<forall>(tid, m) \<in> set (sent_since w (applyStylesToTabs h w)). enabled m = False)
       \<and> get_prop (finalSettings (storage w |` set settings_keys)) ''activeWindowId'' = JUndefined
       \<and> (storage_get_error h = None \<and> tabs_query h = Inr tabs
            \<longrightarrow> map fst (sent_since w (applyStylesToTabs h w)) = map tab_id tabs)"
proof -
  let ?fs = "finalSettings (storage w |` set settings_keys)"
  have ce: "get_prop ?fs ''contrastEnabled'' = JBool True"
    and sc: "get_prop ?fs ''scope'' = JStr ''window''"
    and aw: "get_prop ?fs ''activeWindowId'' = JUndefined"
    using assms
    by (simp_all add: get_prop_def finalSettings_def defaults_def settings_keys_def
        map_add_def restrict_map_def)
  have off: "enabled (applyStyle ?fs t) = False" for t
    by (simp add: applyStyle_def apply_flag_eq ce sc aw)
  have sent: "sent_since w (applyStylesToTabs h w) = map (\<lambda>t. (tab_id t, applyStyle ?fs t)) ts"
    if "storage_get_error h = None" "tabs_query h = Inr ts" for ts
    using that
    by (simp add: applyStylesToTabs_def storage_local_get_def sent_since_send_all)
  have none: "sent_since w (applyStylesToTabs h w) = []"
    if "storage_get_error h = Some e \<or> tabs_query h = Inl e" for e
    using that
    by (auto simp: applyStylesToTabs_def storage_local_get_def sent_since_console_error
        split: option.splits sum.splits)
  have all_off: "\<forall>(tid, m) \<in> set (sent_since w (applyStylesToTabs h w)). enabled m = False"
  proof (cases "storage_get_error h")
    case (Some e)
    then show ?thesis using none [of e] by simp
  next
    case None
    show ?thesis
    proof (cases "tabs_query h")
      case (Inl e)
      then show ?thesis using none [of e] by simp
    next
      case (Inr ts)
      then show ?thesis using sent [OF None Inr] off by auto
    qed
  qed
  have ids: "storage_get_error h = None \<and> tabs_query h = Inr tabs
            \<longrightarrow> map fst (sent_since w (applyStylesToTabs h w)) = map tab_id tabs"
    using sent by (auto simp: comp_def)
  show ?thesis using all_off aw ids by blast
qed

theorem window_scope_without_active_window_witness:
  "map (\<lambda>(tid, m). (tid, enabled m))
       (sent_since (world_of fresh_store) (applyStylesToTabs example_host (world_of fresh_store)))
     = [(1, False), (2, False)]
   \<and> fresh_store ''activeWindowId'' = None
   \<and> windowId tab_a = 10"
proof -
  let ?w = "world_of fresh_store"
  have a: "storage ?w ''contrastEnabled'' = Some (JBool True)"
    "storage ?w ''scope'' = Some (JStr ''window'')"
    "storage ?w ''activeWindowId'' = None"
    by (simp_all add: world_of_def fresh_store_def)
  have s: "sent_since ?w (applyStylesToTabs example_host ?w)
             = [(1, style_msg False 80 110 100), (2, style_msg False 80 110 100)]"
    by (simp add: example_sent example_applyStyle)
  from window_scope_without_active_window [OF a, of example_host "[tab_a, tab_b]"]
  have "\<forall>(tid, m) \<in> set (sent_since ?w (applyStylesToTabs example_host ?w)). enabled m = False"
    by blast
  then have "map (\<lambda>(tid, m). (tid, enabled m)) (sent_since ?w (applyStylesToTabs example_host ?w))
     = [(1, False), (2, False)]"
    unfolding s by simp
  then show ?thesis
    by (simp add: fresh_store_def example_tabs)
qed

end
